theory Spec2Isabelle
  imports Complex_Main
begin

section \<open>Magnitudes\<close>

text \<open>
  The notebook \<^verbatim>\<open>06-Tables/astroquery.ipynb\<close> works on columns of double-precision
  numbers. A magnitude is a finite number, one of the two infinities, or NaN. The special
  values follow the IEEE rules that numpy applies (numpy warns and does not raise on
  division by zero or on an invalid operation). Finite arithmetic is taken as exact:
  rounding, overflow to infinity and the sign of zero are not modelled.
\<close>

datatype fval = Fin real | PInf | NInf | NaN

fun isfinite :: "fval \<Rightarrow> bool" where
  "isfinite (Fin x) = True"
| "isfinite PInf = False"
| "isfinite NInf = False"
| "isfinite NaN = False"

text \<open>The infinity with the sign of \<open>s\<close>; NaN when \<open>s\<close> is zero (as in \<open>inf * 0\<close> and \<open>0 / 0\<close>).\<close>

definition sgn_inf :: "real \<Rightarrow> fval" where
  "sgn_inf s = (if s = 0 then NaN else if 0 < s then PInf else NInf)"

fun fmul :: "fval \<Rightarrow> fval \<Rightarrow> fval" where
  "fmul NaN y = NaN"
| "fmul (Fin x) NaN = NaN"
| "fmul PInf NaN = NaN"
| "fmul NInf NaN = NaN"
| "fmul (Fin x) (Fin y) = Fin (x * y)"
| "fmul (Fin x) PInf = sgn_inf x"
| "fmul (Fin x) NInf = sgn_inf (- x)"
| "fmul PInf (Fin y) = sgn_inf y"
| "fmul NInf (Fin y) = sgn_inf (- y)"
| "fmul PInf PInf = PInf"
| "fmul PInf NInf = NInf"
| "fmul NInf PInf = NInf"
| "fmul NInf NInf = PInf"

fun fdiv :: "fval \<Rightarrow> fval \<Rightarrow> fval" where
  "fdiv NaN y = NaN"
| "fdiv (Fin x) NaN = NaN"
| "fdiv PInf NaN = NaN"
| "fdiv NInf NaN = NaN"
| "fdiv (Fin x) (Fin y) = (if y = 0 then sgn_inf x else Fin (x / y))"
| "fdiv (Fin x) PInf = Fin 0"
| "fdiv (Fin x) NInf = Fin 0"
| "fdiv PInf (Fin y) = (if 0 \<le> y then PInf else NInf)"
| "fdiv NInf (Fin y) = (if 0 \<le> y then NInf else PInf)"
| "fdiv PInf PInf = NaN"
| "fdiv PInf NInf = NaN"
| "fdiv NInf PInf = NaN"
| "fdiv NInf NInf = NaN"

text \<open>
  \<^verbatim>\<open>np.sqrt\<close>: NaN on a negative argument. (HOL's \<open>sqrt\<close> is odd on the negative reals,
  so the negative branch is written out.)
\<close>

fun fsqrt :: "fval \<Rightarrow> fval" where
  "fsqrt (Fin x) = (if x < 0 then NaN else Fin (sqrt x))"
| "fsqrt PInf = PInf"
| "fsqrt NInf = NaN"
| "fsqrt NaN = NaN"

section \<open>Units\<close>

text \<open>
  An astropy unit is kept in its decomposed form: a scale factor with respect to the SI
  base units and the exponent of each base unit of \<^verbatim>\<open>astropy.units.si.bases\<close>.
  Multiplying and dividing units, and taking a square root, never fail: the exponents are
  added, subtracted or halved.
\<close>

record dims =
  metre :: rat
  second :: rat
  kilogram :: rat
  ampere :: rat
  candela :: rat
  radian :: rat
  kelvin :: rat
  mole :: rat

definition dim_none :: dims where
  "dim_none = \<lparr>metre = 0, second = 0, kilogram = 0, ampere = 0, candela = 0,
                radian = 0, kelvin = 0, mole = 0\<rparr>"

definition dim_add :: "dims \<Rightarrow> dims \<Rightarrow> dims" where
  "dim_add d e = \<lparr>metre = metre d + metre e, second = second d + second e,
                   kilogram = kilogram d + kilogram e, ampere = ampere d + ampere e,
                   candela = candela d + candela e, radian = radian d + radian e,
                   kelvin = kelvin d + kelvin e, mole = mole d + mole e\<rparr>"

definition dim_sub :: "dims \<Rightarrow> dims \<Rightarrow> dims" where
  "dim_sub d e = \<lparr>metre = metre d - metre e, second = second d - second e,
                   kilogram = kilogram d - kilogram e, ampere = ampere d - ampere e,
                   candela = candela d - candela e, radian = radian d - radian e,
                   kelvin = kelvin d - kelvin e, mole = mole d - mole e\<rparr>"

definition dim_half :: "dims \<Rightarrow> dims" where
  "dim_half d = \<lparr>metre = metre d / 2, second = second d / 2,
                  kilogram = kilogram d / 2, ampere = ampere d / 2,
                  candela = candela d / 2, radian = radian d / 2,
                  kelvin = kelvin d / 2, mole = mole d / 2\<rparr>"

record unit_tag =
  scale :: real
  bases :: dims

definition unit_mul :: "unit_tag \<Rightarrow> unit_tag \<Rightarrow> unit_tag" where
  "unit_mul u v = \<lparr>scale = scale u * scale v, bases = dim_add (bases u) (bases v)\<rparr>"

definition unit_div :: "unit_tag \<Rightarrow> unit_tag \<Rightarrow> unit_tag" where
  "unit_div u v = \<lparr>scale = scale u / scale v, bases = dim_sub (bases u) (bases v)\<rparr>"

definition unit_sqrt :: "unit_tag \<Rightarrow> unit_tag" where
  "unit_sqrt u = \<lparr>scale = sqrt (scale u), bases = dim_half (bases u)\<rparr>"

text \<open>The unit that \<^verbatim>\<open>decompose()\<close> leaves: the same base exponents, scale one.\<close>

definition unit_decompose :: "unit_tag \<Rightarrow> unit_tag" where
  "unit_decompose u = \<lparr>scale = 1, bases = bases u\<rparr>"

definition dimensionless :: "unit_tag \<Rightarrow> bool" where
  "dimensionless u = (bases u = dim_none)"

definition dim_length :: dims where
  "dim_length = dim_none\<lparr>metre := 1\<rparr>"

definition dim_temperature :: dims where
  "dim_temperature = dim_none\<lparr>kelvin := 1\<rparr>"

definition dim_mass :: dims where
  "dim_mass = dim_none\<lparr>kilogram := 1\<rparr>"

text \<open>
  The units of the archive's columns. The two length constants are the library's values
  in metres: the IAU 2015 nominal solar radius and the IAU 2012 astronomical unit.
\<close>

definition K :: unit_tag where
  "K = \<lparr>scale = 1, bases = dim_temperature\<rparr>"

definition mK :: unit_tag where
  "mK = \<lparr>scale = 1 / 1000, bases = dim_temperature\<rparr>"

definition R_sun :: unit_tag where
  "R_sun = \<lparr>scale = 695700000, bases = dim_length\<rparr>"

definition AU :: unit_tag where
  "AU = \<lparr>scale = 149597870700, bases = dim_length\<rparr>"

definition kg :: unit_tag where
  "kg = \<lparr>scale = 1, bases = dim_mass\<rparr>"

definition meter :: unit_tag where
  "meter = \<lparr>scale = 1, bases = dim_length\<rparr>"

section \<open>Columns and tables\<close>

text \<open>
  A column of the \<^verbatim>\<open>QTable\<close> is either a \<^verbatim>\<open>Quantity\<close> (one unit and a sequence of
  magnitudes) or a plain \<^verbatim>\<open>Column\<close> of strings, such as \<^verbatim>\<open>pl_discmethod\<close>.
  The table maps column names to columns, in order.
\<close>

datatype column = Quantity unit_tag "fval list" | Column "string list"

datatype dtype = Numeric | Categorical

datatype cell = Num fval | Str string

fun col_len :: "column \<Rightarrow> nat" where
  "col_len (Quantity u xs) = length xs"
| "col_len (Column ss) = length ss"

fun col_dtype :: "column \<Rightarrow> dtype" where
  "col_dtype (Quantity u xs) = Numeric"
| "col_dtype (Column ss) = Categorical"

fun col_unit :: "column \<Rightarrow> unit_tag option" where
  "col_unit (Quantity u xs) = Some u"
| "col_unit (Column ss) = None"

fun cells :: "column \<Rightarrow> cell list" where
  "cells (Quantity u xs) = map Num xs"
| "cells (Column ss) = map Str ss"

type_synonym table = "(string \<times> column) list"

text \<open>
  The exceptions the modelled operations raise. \<^verbatim>\<open>KeyError\<close> is what a lookup of a
  missing column name raises; the specification calls it ColumnNotFoundError.
  \<^verbatim>\<open>UnitConversionError\<close> is the library's error for units that cannot be converted
  into each other; the specification calls it IncompatibleUnitsError.
\<close>

datatype error =
  KeyError string | TypeError | ValueError | IndexError | AttributeError | UnitConversionError

abbreviation ColumnNotFoundError :: "string \<Rightarrow> error" where
  "ColumnNotFoundError \<equiv> KeyError"

abbreviation IncompatibleUnitsError :: error where
  "IncompatibleUnitsError \<equiv> UnitConversionError"

definition ebind :: "error + 'a \<Rightarrow> ('a \<Rightarrow> error + 'b) \<Rightarrow> error + 'b" where
  "ebind r f = (case r of Inl e \<Rightarrow> Inl e | Inr x \<Rightarrow> f x)"

text \<open>\<^verbatim>\<open>archive[name]\<close>\<close>

definition getColumn :: "table \<Rightarrow> string \<Rightarrow> error + column" where
  "getColumn t name = (case map_of t name of None \<Rightarrow> Inl (KeyError name) | Some c \<Rightarrow> Inr c)"

text \<open>\<^verbatim>\<open>len(archive)\<close>: the length of the first column, zero without columns.\<close>

fun rowCount :: "table \<Rightarrow> nat" where
  "rowCount [] = 0"
| "rowCount ((name, c) # t) = col_len c"

text \<open>What the table type guarantees: unique names, all columns of one length.\<close>

definition valid_table :: "table \<Rightarrow> bool" where
  "valid_table t = (distinct (map fst t) \<and> list_all (\<lambda>(name, c). col_len c = rowCount t) t)"

section \<open>Masks\<close>

text \<open>
  \<^verbatim>\<open>archive['pl_discmethod'] == 'Transit'\<close>: the element-wise comparison of a string
  column with a string is a boolean mask. Comparing a column of numbers with a string is
  not done element by element: the comparison as a whole is the scalar \<^verbatim>\<open>False\<close>.
\<close>

datatype cmp = Mask "bool list" | Scalar bool

definition eq_str :: "string list \<Rightarrow> string \<Rightarrow> bool list" where
  "eq_str ss v = map (\<lambda>s. s = v) ss"

fun col_eq :: "column \<Rightarrow> string \<Rightarrow> cmp" where
  "col_eq (Column ss) v = Mask (eq_str ss v)"
| "col_eq (Quantity u xs) v = Scalar False"

definition byCategory :: "table \<Rightarrow> string \<Rightarrow> string \<Rightarrow> error + cmp" where
  "byCategory t name v = ebind (getColumn t name) (\<lambda>c. Inr (col_eq c v))"

text \<open>Lines 102 and 103 of the notebook.\<close>

definition transits :: "table \<Rightarrow> error + cmp" where
  "transits archive = byCategory archive ''pl_discmethod'' ''Transit''"

definition rvs :: "table \<Rightarrow> error + cmp" where
  "rvs archive = byCategory archive ''pl_discmethod'' ''Radial Velocity''"

text \<open>
  \<^verbatim>\<open>column[mask]\<close>: the entries at the true positions, in order. numpy raises
  IndexError when the mask is not as long as the column.
\<close>

definition mask_index :: "'a list \<Rightarrow> bool list \<Rightarrow> error + 'a list" where
  "mask_index xs m =
     (if length m = length xs then Inr (map fst (filter snd (zip xs m))) else Inl IndexError)"

fun slice :: "column \<Rightarrow> bool list \<Rightarrow> error + column" where
  "slice (Quantity u xs) m = ebind (mask_index xs m) (\<lambda>ys. Inr (Quantity u ys))"
| "slice (Column ss) m = ebind (mask_index ss m) (\<lambda>ys. Inr (Column ys))"

text \<open>
  The notebook slices each column it plots with the same mask
  (\<^verbatim>\<open>archive['pl_orbper'][transits]\<close>, \<^verbatim>\<open>archive['pl_radj'][transits]\<close>). Filtering
  the table is that slice on every column, in the table's order.
\<close>

fun filter_table :: "table \<Rightarrow> bool list \<Rightarrow> error + table" where
  "filter_table [] m = Inr []"
| "filter_table ((name, c) # t) m =
     ebind (slice c m) (\<lambda>c'. ebind (filter_table t m) (\<lambda>t'. Inr ((name, c') # t')))"

text \<open>\<^verbatim>\<open>np.isfinite(column)\<close>; numpy raises TypeError on strings.\<close>

fun filterFinite :: "column \<Rightarrow> error + bool list" where
  "filterFinite (Quantity u xs) = Inr (map isfinite xs)"
| "filterFinite (Column ss) = Inl TypeError"

section \<open>Equilibrium temperature\<close>

text \<open>
  Arithmetic on one-dimensional arrays: element by element when the lengths agree, an
  operand of length one is broadcast, any other pair of lengths is a ValueError.
\<close>

definition broadcast :: "(fval \<Rightarrow> fval \<Rightarrow> fval) \<Rightarrow> fval list \<Rightarrow> fval list \<Rightarrow> error + fval list" where
  "broadcast f xs ys =
     (if length xs = length ys then Inr (map (\<lambda>(x, y). f x y) (zip xs ys))
      else if length xs = 1 then Inr (map (\<lambda>y. f (hd xs) y) ys)
      else if length ys = 1 then Inr (map (\<lambda>x. f x (hd ys)) xs)
      else Inl ValueError)"

text \<open>\<^verbatim>\<open>k * a\<close> for a number \<open>k\<close>: the unit stays. Arithmetic on a string column is a TypeError.\<close>

fun scalar_mul :: "real \<Rightarrow> column \<Rightarrow> error + column" where
  "scalar_mul k (Quantity u xs) = Inr (Quantity u (map (fmul (Fin k)) xs))"
| "scalar_mul k (Column ss) = Inl TypeError"

text \<open>\<^verbatim>\<open>p / q\<close> and \<^verbatim>\<open>p * q\<close>: the units are divided or multiplied, nothing is converted.\<close>

fun qdiv :: "column \<Rightarrow> column \<Rightarrow> error + column" where
  "qdiv (Quantity u xs) (Quantity v ys) =
     ebind (broadcast fdiv xs ys) (\<lambda>zs. Inr (Quantity (unit_div u v) zs))"
| "qdiv (Column ss) q = Inl TypeError"
| "qdiv (Quantity u xs) (Column ss) = Inl TypeError"

fun qmul :: "column \<Rightarrow> column \<Rightarrow> error + column" where
  "qmul (Quantity u xs) (Quantity v ys) =
     ebind (broadcast fmul xs ys) (\<lambda>zs. Inr (Quantity (unit_mul u v) zs))"
| "qmul (Column ss) q = Inl TypeError"
| "qmul (Quantity u xs) (Column ss) = Inl TypeError"

text \<open>\<^verbatim>\<open>np.sqrt(q)\<close>: square root of the magnitudes, the unit to the power one half.\<close>

fun qsqrt :: "column \<Rightarrow> error + column" where
  "qsqrt (Quantity u xs) = Inr (Quantity (unit_sqrt u) (map fsqrt xs))"
| "qsqrt (Column ss) = Inl TypeError"

text \<open>
  \<^verbatim>\<open>q.decompose()\<close>: the magnitudes are multiplied by the scale of the unit, and the
  unit becomes the product of SI base units with scale one. A plain \<^verbatim>\<open>Column\<close> has
  no such method.
\<close>

fun decompose :: "column \<Rightarrow> error + column" where
  "decompose (Quantity u xs) =
     Inr (Quantity (unit_decompose u) (map (\<lambda>x. fmul x (Fin (scale u))) xs))"
| "decompose (Column ss) = Inl AttributeError"

text \<open>The subterm \<^verbatim>\<open>rstar / (2 * a)\<close> of line 135.\<close>

definition ratio :: "column \<Rightarrow> column \<Rightarrow> error + column" where
  "ratio rstar a = ebind (scalar_mul 2 a) (\<lambda>a2. qdiv rstar a2)"

text \<open>
  Lines 131 to 135:
  \<^verbatim>\<open>teff = archive['st_teff']; rstar = archive['st_rad']; a = archive['pl_orbsmax']\<close>,
  \<^verbatim>\<open>teq = (teff * np.sqrt(rstar / (2 * a))).decompose()\<close>.
\<close>

definition computeEquilibriumTemperature :: "table \<Rightarrow> error + column" where
  "computeEquilibriumTemperature archive =
     ebind (getColumn archive ''st_teff'') (\<lambda>teff.
     ebind (getColumn archive ''st_rad'') (\<lambda>rstar.
     ebind (getColumn archive ''pl_orbsmax'') (\<lambda>a.
     ebind (ratio rstar a) (\<lambda>q.
     ebind (qsqrt q) (\<lambda>root.
     ebind (qmul teff root) (\<lambda>prod.
     decompose prod))))))"

section \<open>Example tables\<close>

text \<open>The solar-Earth analogue of the specification's scenario: one row.\<close>

definition sun_earth :: table where
  "sun_earth =
     [(''st_teff'', Quantity K [Fin 5778]),
      (''st_rad'', Quantity R_sun [Fin 1]),
      (''pl_orbsmax'', Quantity AU [Fin 1])]"

text \<open>A three-row table in the archive's units, with a missing temperature in the last row.\<close>

definition sample_archive :: table where
  "sample_archive =
     [(''pl_discmethod'', Column [''Transit'', ''Radial Velocity'', ''Transit'']),
      (''st_teff'', Quantity K [Fin 5778, Fin 4000, NaN]),
      (''st_rad'', Quantity R_sun [Fin 1, Fin 2, Fin 1]),
      (''pl_orbsmax'', Quantity AU [Fin 1, Fin 3, Fin 1])]"

section \<open>Lookup\<close>

lemma getColumn_absent: "name \<notin> fst ` set t \<Longrightarrow> getColumn t name = Inl (KeyError name)"
  by (simp add: getColumn_def map_of_eq_None_iff[THEN iffD2])

lemma getColumn_present:
  "distinct (map fst t) \<Longrightarrow> (name, c) \<in> set t \<Longrightarrow> getColumn t name = Inr c"
  by (simp add: getColumn_def)

lemma getColumn_Inr_mem: "getColumn t name = Inr c \<Longrightarrow> (name, c) \<in> set t"
  by (auto simp: getColumn_def split: option.splits dest: map_of_SomeD)

lemma valid_col_len: "valid_table t \<Longrightarrow> getColumn t name = Inr c \<Longrightarrow> col_len c = rowCount t"
  by (auto simp: valid_table_def list_all_iff dest!: getColumn_Inr_mem)

lemma valid_sample_archive: "valid_table sample_archive"
  by (simp add: valid_table_def sample_archive_def)

lemma sample_archive_lookups:
  "getColumn sample_archive ''pl_discmethod'' = Inr (Column [''Transit'', ''Radial Velocity'', ''Transit''])"
  "getColumn sample_archive ''st_teff'' = Inr (Quantity K [Fin 5778, Fin 4000, NaN])"
  "getColumn sample_archive ''st_rad'' = Inr (Quantity R_sun [Fin 1, Fin 2, Fin 1])"
  "getColumn sample_archive ''pl_orbsmax'' = Inr (Quantity AU [Fin 1, Fin 3, Fin 1])"
  by (simp_all add: getColumn_def sample_archive_def)

text \<open>
  Claim C9. Looking a column up by a name that the table does not have fails with
  ColumnNotFoundError (Python's KeyError) and so returns no column at all, neither a
  default nor an empty one; looking up a name that the table has returns that column.
\<close>

theorem getColumn_absent_or_present:
  "(name \<notin> fst ` set t \<longrightarrow>
      getColumn t name = Inl (ColumnNotFoundError name) \<and> (\<forall>c. getColumn t name \<noteq> Inr c))
   \<and> (valid_table t \<longrightarrow> (\<forall>c. (name, c) \<in> set t \<longrightarrow> getColumn t name = Inr c))"
  by (auto simp: getColumn_absent getColumn_present valid_table_def)

theorem getColumn_absent_or_present_witness:
  "''nonexistent'' \<notin> fst ` set sample_archive
   \<and> getColumn sample_archive ''nonexistent'' = Inl (ColumnNotFoundError ''nonexistent'')
   \<and> valid_table sample_archive
   \<and> (''st_rad'', Quantity R_sun [Fin 1, Fin 2, Fin 1]) \<in> set sample_archive
   \<and> getColumn sample_archive ''st_rad'' = Inr (Quantity R_sun [Fin 1, Fin 2, Fin 1])"
proof -
  have absent: "''nonexistent'' \<notin> fst ` set sample_archive"
    by (simp add: sample_archive_def)
  have present: "(''st_rad'', Quantity R_sun [Fin 1, Fin 2, Fin 1]) \<in> set sample_archive"
    by (simp add: sample_archive_def)
  show ?thesis
    using absent present valid_sample_archive
      getColumn_absent_or_present [of "''nonexistent''" sample_archive]
      getColumn_absent_or_present [of "''st_rad''" sample_archive]
    by blast
qed

section \<open>Categorical masks\<close>

text \<open>
  Claim C7. On a column of strings, the categorical filter returns a mask with one entry
  per row, true exactly in the rows whose entry equals the given value. On the discovery
  methods Transit, Radial Velocity, Transit and the value Transit the mask is
  true, false, true.
\<close>

theorem byCategory_mask:
  "(getColumn t name = Inr (Column ss) \<longrightarrow>
      (\<exists>m. byCategory t name v = Inr (Mask m) \<and> length m = length ss \<and>
           (\<forall>i<length ss. m ! i = (ss ! i = v))))
   \<and> byCategory [(''pl_discmethod'', Column [''Transit'', ''Radial Velocity'', ''Transit''])]
        ''pl_discmethod'' ''Transit'' = Inr (Mask [True, False, True])"
  by (simp add: byCategory_def ebind_def eq_str_def getColumn_def)

theorem byCategory_mask_witness:
  "getColumn sample_archive ''pl_discmethod''
     = Inr (Column [''Transit'', ''Radial Velocity'', ''Transit''])
   \<and> (\<exists>m. byCategory sample_archive ''pl_discmethod'' ''Radial Velocity'' = Inr (Mask m) \<and>
          length m = length [''Transit'', ''Radial Velocity'', ''Transit''] \<and>
          (\<forall>i<length [''Transit'', ''Radial Velocity'', ''Transit''].
              m ! i = ([''Transit'', ''Radial Velocity'', ''Transit''] ! i = ''Radial Velocity'')))"
  using sample_archive_lookups(1)
    byCategory_mask [of sample_archive "''pl_discmethod''"
      "[''Transit'', ''Radial Velocity'', ''Transit'']" "''Radial Velocity''"]
  by blast

text \<open>
  Claim C10. The masks \<open>transits\<close> and \<open>rvs\<close>, built from the same column of discovery
  methods with the two different values, have one entry per row and are disjoint: in no
  row are both true.
\<close>

theorem transits_rvs_disjoint:
  "getColumn archive ''pl_discmethod'' = Inr (Column ss) \<Longrightarrow>
   \<exists>m1 m2. transits archive = Inr (Mask m1) \<and> rvs archive = Inr (Mask m2) \<and>
      length m1 = length ss \<and> length m2 = length ss \<and>
      (\<forall>i<length ss. \<not> (m1 ! i \<and> m2 ! i))"
  by (simp add: transits_def rvs_def byCategory_def ebind_def eq_str_def)

theorem transits_rvs_disjoint_witness:
  "getColumn sample_archive ''pl_discmethod''
     = Inr (Column [''Transit'', ''Radial Velocity'', ''Transit''])
   \<and> (\<exists>m1 m2. transits sample_archive = Inr (Mask m1) \<and> rvs sample_archive = Inr (Mask m2) \<and>
        length m1 = length [''Transit'', ''Radial Velocity'', ''Transit''] \<and>
        length m2 = length [''Transit'', ''Radial Velocity'', ''Transit''] \<and>
        (\<forall>i<length [''Transit'', ''Radial Velocity'', ''Transit'']. \<not> (m1 ! i \<and> m2 ! i)))"
  using sample_archive_lookups(1)
    transits_rvs_disjoint [of sample_archive "[''Transit'', ''Radial Velocity'', ''Transit'']"]
  by blast

section \<open>Finite entries\<close>

text \<open>
  Claim C8. The finiteness mask of a column of magnitudes has one entry per position,
  true exactly where the magnitude is neither NaN nor infinite. On the magnitudes
  1.0, NaN, 3.0 it is true, false, true.
\<close>

theorem filterFinite_mask:
  "(\<exists>m. filterFinite (Quantity u xs) = Inr m \<and> length m = length xs \<and>
       (\<forall>i<length xs. m ! i = (xs ! i \<noteq> NaN \<and> xs ! i \<noteq> PInf \<and> xs ! i \<noteq> NInf)))
   \<and> filterFinite (Quantity u [Fin 1, NaN, Fin 3]) = Inr [True, False, True]"
proof -
  have "isfinite x = (x \<noteq> NaN \<and> x \<noteq> PInf \<and> x \<noteq> NInf)" for x
    by (cases x) simp_all
  then show ?thesis by simp
qed

theorem filterFinite_mask_witness:
  "\<exists>m. filterFinite (Quantity K [Fin 2, PInf, NInf, NaN]) = Inr m \<and>
       length m = length [Fin 2, PInf, NInf, NaN] \<and>
       (\<forall>i<length [Fin 2, PInf, NInf, NaN].
          m ! i = ([Fin 2, PInf, NInf, NaN] ! i \<noteq> NaN \<and> [Fin 2, PInf, NInf, NaN] ! i \<noteq> PInf \<and>
                   [Fin 2, PInf, NInf, NaN] ! i \<noteq> NInf))"
  using filterFinite_mask [of K "[Fin 2, PInf, NInf, NaN]"]
  by blast

section \<open>Slicing by a mask\<close>

lemma mask_index_length:
  "length m = length xs \<Longrightarrow> length (map fst (filter snd (zip xs m))) = count_list m True"
  by (induction m xs rule: list_induct2) auto

lemma mask_index_nths:
  "length m = length xs \<Longrightarrow>
   map fst (filter snd (zip xs m)) = nths xs {i. i < length m \<and> m ! i}"
proof (induction m xs rule: list_induct2)
  case Nil
  then show ?case by simp
next
  case (Cons b bs x xs)
  have "{j. Suc j < Suc (length bs) \<and> (b # bs) ! Suc j} = {i. i < length bs \<and> bs ! i}"
    by auto
  with Cons show ?case by (simp add: nths_Cons)
qed

lemma slice_ok:
  assumes "length m = col_len c"
  shows "\<exists>c'. slice c m = Inr c' \<and> col_len c' = count_list m True \<and>
      col_unit c' = col_unit c \<and> col_dtype c' = col_dtype c \<and>
      cells c' = nths (cells c) {i. i < length m \<and> m ! i}"
proof (cases c)
  case (Quantity u xs)
  with assms have len: "length m = length xs" by simp
  have "cells (Quantity u (map fst (filter snd (zip xs m))))
      = nths (cells c) {i. i < length m \<and> m ! i}"
    using mask_index_nths[OF len] Quantity by (simp add: nths_map)
  then show ?thesis
    using Quantity len mask_index_length[OF len] by (simp add: ebind_def mask_index_def)
next
  case (Column ss)
  with assms have len: "length m = length ss" by simp
  have "cells (Column (map fst (filter snd (zip ss m))))
      = nths (cells c) {i. i < length m \<and> m ! i}"
    using mask_index_nths[OF len] Column by (simp add: nths_map)
  then show ?thesis
    using Column len mask_index_length[OF len] by (simp add: ebind_def mask_index_def)
qed

lemma filter_table_ok:
  "list_all (\<lambda>(name, c). col_len c = length m) t \<Longrightarrow>
   \<exists>t'. filter_table t m = Inr t' \<and> map fst t' = map fst t \<and>
     list_all (\<lambda>(name, c). col_len c = count_list m True) t' \<and>
     list_all2 (\<lambda>(n, c) (n', c'). slice c m = Inr c') t t'"
proof (induction t)
  case Nil
  then show ?case by simp
next
  case (Cons p t)
  obtain name c where p: "p = (name, c)" by (cases p)
  from Cons.prems p have len: "length m = col_len c" by simp
  from slice_ok[OF len] obtain c'
    where c': "slice c m = Inr c'" "col_len c' = count_list m True" by blast
  from Cons obtain t' where t': "filter_table t m = Inr t'" "map fst t' = map fst t"
     "list_all (\<lambda>(name, c). col_len c = count_list m True) t'"
     "list_all2 (\<lambda>(n, c) (n', c'). slice c m = Inr c') t t'" by auto
  show ?case using p c' t' by (simp add: ebind_def)
qed

lemma sliced_lookup:
  "list_all2 (\<lambda>(n, c) (n', c'). slice c m = Inr c') t t' \<Longrightarrow> map fst t' = map fst t \<Longrightarrow>
   getColumn t name = Inr c \<Longrightarrow> \<exists>c'. getColumn t' name = Inr c' \<and> slice c m = Inr c'"
proof (induction t t' rule: list_all2_induct)
  case Nil
  then show ?case by (simp add: getColumn_def)
next
  case (Cons p t q t')
  then show ?case by (cases p; cases q) (auto simp: getColumn_def split: if_splits)
qed

lemma rowCount_all:
  "list_all (\<lambda>(name, c). col_len c = k) t \<Longrightarrow> t \<noteq> [] \<Longrightarrow> rowCount t = k"
  by (cases t) auto

text \<open>
  Claim C6. Filtering a table by a mask as long as the table has rows succeeds. The result
  keeps the column names, has as many rows as the mask has true entries, and each of its
  columns is the slice of the original column under the mask: same unit, same dtype, and
  the entries at the true positions in their original order.
\<close>

theorem filter_table_rows_and_columns:
  assumes "valid_table t" and "length m = rowCount t"
  shows "\<exists>t'. filter_table t m = Inr t' \<and> valid_table t' \<and> map fst t' = map fst t \<and>
     rowCount t' = count_list m True \<and>
     (\<forall>name c. getColumn t name = Inr c \<longrightarrow>
        (\<exists>c'. getColumn t' name = Inr c' \<and> slice c m = Inr c' \<and>
              col_unit c' = col_unit c \<and> col_dtype c' = col_dtype c \<and>
              cells c' = nths (cells c) {i. i < length m \<and> m ! i}))"
proof -
  from assms have all: "list_all (\<lambda>(name, c). col_len c = length m) t"
    by (simp add: valid_table_def)
  from filter_table_ok[OF all] obtain t'
    where t': "filter_table t m = Inr t'" "map fst t' = map fst t"
      "list_all (\<lambda>(name, c). col_len c = count_list m True) t'"
      "list_all2 (\<lambda>(n, c) (n', c'). slice c m = Inr c') t t'" by blast
  have rc: "rowCount t' = count_list m True"
  proof (cases "t' = []")
    case True
    with t'(2) have "t = []" by simp
    with assms(2) True show ?thesis by simp
  next
    case False
    with t'(3) show ?thesis by (rule rowCount_all)
  qed
  have valid: "valid_table t'"
    using assms(1) t'(2,3) rc by (simp add: valid_table_def)
  have cols: "\<exists>c'. getColumn t' name = Inr c' \<and> slice c m = Inr c' \<and>
              col_unit c' = col_unit c \<and> col_dtype c' = col_dtype c \<and>
              cells c' = nths (cells c) {i. i < length m \<and> m ! i}"
    if g: "getColumn t name = Inr c" for name c
  proof -
    from sliced_lookup[OF t'(4) t'(2) g] obtain c'
      where c': "getColumn t' name = Inr c'" "slice c m = Inr c'" by blast
    have "length m = col_len c" using valid_col_len[OF assms(1) g] assms(2) by simp
    from slice_ok[OF this] c'(2) have "col_unit c' = col_unit c \<and> col_dtype c' = col_dtype c \<and>
              cells c' = nths (cells c) {i. i < length m \<and> m ! i}" by auto
    with c' show ?thesis by simp
  qed
  show ?thesis using t'(1,2) rc valid cols by blast
qed

theorem filter_table_rows_and_columns_witness:
  "valid_table sample_archive \<and> length [True, False, True] = rowCount sample_archive \<and>
   (\<exists>t'. filter_table sample_archive [True, False, True] = Inr t' \<and> valid_table t' \<and>
     map fst t' = map fst sample_archive \<and>
     rowCount t' = count_list [True, False, True] True \<and>
     (\<forall>name c. getColumn sample_archive name = Inr c \<longrightarrow>
        (\<exists>c'. getColumn t' name = Inr c' \<and> slice c [True, False, True] = Inr c' \<and>
              col_unit c' = col_unit c \<and> col_dtype c' = col_dtype c \<and>
              cells c' = nths (cells c)
                 {i. i < length [True, False, True] \<and> [True, False, True] ! i})))"
proof -
  have len: "length [True, False, True] = rowCount sample_archive"
    by (simp add: sample_archive_def)
  show ?thesis
    using valid_sample_archive len
      filter_table_rows_and_columns [OF valid_sample_archive len]
    by blast
qed

section \<open>Magnitudes that are not finite\<close>

lemma nonfin_fmul_l: "\<not> isfinite x \<Longrightarrow> \<not> isfinite (fmul x y)"
  by (cases x; cases y) (simp_all add: sgn_inf_def)

lemma nonfin_fmul_r: "\<not> isfinite y \<Longrightarrow> \<not> isfinite (fmul x y)"
  by (cases x; cases y) (simp_all add: sgn_inf_def)

lemma nonfin_ratio: "\<not> isfinite r \<Longrightarrow> \<not> isfinite (fsqrt (fdiv r d))"
  by (cases r; cases d) simp_all

lemma nan_axis: "fsqrt (fdiv r (fmul (Fin 2) NaN)) = NaN"
  by (cases r) simp_all

lemma nonfin_row:
  assumes "\<not> isfinite t \<or> \<not> isfinite r \<or> a = NaN"
  shows "\<not> isfinite (fmul (fmul t (fsqrt (fdiv r (fmul (Fin 2) a)))) (Fin s))"
  using assms nonfin_fmul_l nonfin_fmul_r nonfin_ratio nan_axis
  by (metis isfinite.simps(4))

section \<open>The computation on columns of magnitudes\<close>

lemma broadcast_same:
  "length xs = length ys \<Longrightarrow> broadcast f xs ys = Inr (map (\<lambda>(x, y). f x y) (zip xs ys))"
  by (simp add: broadcast_def)

lemma ratio_numeric:
  assumes "length rs = n" "length axs = n"
  shows "ratio (Quantity ur rs) (Quantity ua axs) =
    Inr (Quantity (unit_div ur ua)
      (map (\<lambda>i. fdiv (rs ! i) (fmul (Fin 2) (axs ! i))) [0..<n]))"
proof -
  have "map (\<lambda>(x, y). fdiv x y) (zip rs (map (fmul (Fin 2)) axs))
      = map (\<lambda>i. fdiv (rs ! i) (fmul (Fin 2) (axs ! i))) [0..<n]"
    using assms by (intro nth_equalityI) simp_all
  then show ?thesis
    using assms by (simp add: ratio_def ebind_def broadcast_same)
qed

lemma compute_numeric:
  assumes "getColumn t ''st_teff'' = Inr (Quantity ut ts)"
    and "getColumn t ''st_rad'' = Inr (Quantity ur rs)"
    and "getColumn t ''pl_orbsmax'' = Inr (Quantity ua axs)"
    and "length ts = n" "length rs = n" "length axs = n"
  shows "computeEquilibriumTemperature t =
    Inr (Quantity (unit_decompose (unit_mul ut (unit_sqrt (unit_div ur ua))))
      (map (\<lambda>i. fmul (fmul (ts ! i) (fsqrt (fdiv (rs ! i) (fmul (Fin 2) (axs ! i)))))
                    (Fin (scale ut * sqrt (scale ur / scale ua)))) [0..<n]))"
proof -
  have "map (\<lambda>x. fmul x (Fin (scale ut * sqrt (scale ur / scale ua))))
          (map (\<lambda>(x, y). fmul x y)
             (zip ts (map fsqrt (map (\<lambda>i. fdiv (rs ! i) (fmul (Fin 2) (axs ! i))) [0..<n]))))
      = map (\<lambda>i. fmul (fmul (ts ! i) (fsqrt (fdiv (rs ! i) (fmul (Fin 2) (axs ! i)))))
                    (Fin (scale ut * sqrt (scale ur / scale ua)))) [0..<n]"
    using assms(4-6) by (intro nth_equalityI) simp_all
  then show ?thesis
    using assms ratio_numeric[OF assms(5,6), of ur ua]
    by (simp add: computeEquilibriumTemperature_def ebind_def broadcast_same
        unit_mul_def unit_sqrt_def unit_div_def)
qed

lemma compute_valid:
  assumes "valid_table t"
    and "getColumn t ''st_teff'' = Inr (Quantity ut ts)"
    and "getColumn t ''st_rad'' = Inr (Quantity ur rs)"
    and "getColumn t ''pl_orbsmax'' = Inr (Quantity ua axs)"
  shows "computeEquilibriumTemperature t =
    Inr (Quantity (unit_decompose (unit_mul ut (unit_sqrt (unit_div ur ua))))
      (map (\<lambda>i. fmul (fmul (ts ! i) (fsqrt (fdiv (rs ! i) (fmul (Fin 2) (axs ! i)))))
                    (Fin (scale ut * sqrt (scale ur / scale ua)))) [0..<rowCount t]))"
proof -
  have "length ts = rowCount t" "length rs = rowCount t" "length axs = rowCount t"
    using valid_col_len[OF assms(1,2)] valid_col_len[OF assms(1,3)] valid_col_len[OF assms(1,4)]
    by simp_all
  then show ?thesis by (rule compute_numeric[OF assms(2-4)])
qed

lemma ebind_never:
  "r \<noteq> Inl e \<Longrightarrow> (\<And>x. f x \<noteq> Inl e) \<Longrightarrow> ebind r f \<noteq> Inl e"
  by (cases r) (simp_all add: ebind_def)

lemma getColumn_no_unit_error: "getColumn t name \<noteq> Inl UnitConversionError"
  by (simp add: getColumn_def split: option.splits)

lemma broadcast_no_unit_error: "broadcast f xs ys \<noteq> Inl UnitConversionError"
  by (simp add: broadcast_def)

lemma ratio_no_unit_error: "ratio rstar a \<noteq> Inl UnitConversionError"
proof -
  have "qdiv c d \<noteq> Inl UnitConversionError" for c d
    by (cases c; cases d) (simp_all add: ebind_never broadcast_no_unit_error)
  moreover have "scalar_mul 2 a \<noteq> Inl UnitConversionError"
    by (cases a) simp_all
  ultimately show ?thesis
    unfolding ratio_def by (intro ebind_never)
qed

lemma qsqrt_no_unit_error: "qsqrt q \<noteq> Inl UnitConversionError"
  by (cases q) simp_all

lemma qmul_no_unit_error: "qmul c d \<noteq> Inl UnitConversionError"
  by (cases c; cases d) (simp_all add: ebind_never broadcast_no_unit_error)

lemma decompose_no_unit_error: "decompose q \<noteq> Inl UnitConversionError"
  by (cases q) simp_all

lemma compute_no_unit_error: "computeEquilibriumTemperature t \<noteq> Inl UnitConversionError"
  unfolding computeEquilibriumTemperature_def
  by (intro ebind_never getColumn_no_unit_error ratio_no_unit_error qsqrt_no_unit_error
      qmul_no_unit_error decompose_no_unit_error)

section \<open>Units of the result\<close>

lemma dim_sub_self: "dim_sub d d = dim_none"
  by (simp add: dim_sub_def dim_none_def)

lemma dim_sub_none_iff: "dim_sub d e = dim_none \<longleftrightarrow> d = e"
  by (cases d; cases e) (auto simp: dim_sub_def dim_none_def)

lemma dim_add_half_none: "dim_add d (dim_half dim_none) = d"
  by (cases d) (simp add: dim_add_def dim_half_def dim_none_def)

lemma decomposed_unit_same_dim:
  "bases ur = bases ua \<Longrightarrow>
   unit_decompose (unit_mul ut (unit_sqrt (unit_div ur ua))) = \<lparr>scale = 1, bases = bases ut\<rparr>"
  by (simp add: unit_decompose_def unit_mul_def unit_sqrt_def unit_div_def dim_sub_self
      dim_add_half_none)

lemma unit_scale_one: "(\<lparr>scale = 1, bases = bases ut\<rparr> = ut) = (scale ut = 1)"
  by (cases ut) auto

lemma archive_units_decomposed: "unit_decompose (unit_mul K (unit_sqrt (unit_div R_sun AU))) = K"
  using decomposed_unit_same_dim[of R_sun AU K] by (simp add: K_def R_sun_def AU_def)

lemma sun_earth_lookups:
  "getColumn sun_earth ''st_teff'' = Inr (Quantity K [Fin 5778])"
  "getColumn sun_earth ''st_rad'' = Inr (Quantity R_sun [Fin 1])"
  "getColumn sun_earth ''pl_orbsmax'' = Inr (Quantity AU [Fin 1])"
  by (simp_all add: getColumn_def sun_earth_def)

section \<open>The equilibrium temperature\<close>

text \<open>
  Claim C2, as the code has it. The ratio \<^verbatim>\<open>rstar / (2 * a)\<close> is formed without any
  conversion: its magnitudes are the quotients of the magnitudes as stored and its unit is
  the quotient of the two column units, which is dimensionless exactly when the two
  columns have the same dimension. Whatever the three units are, the computation returns
  a column, in the decomposed unit of the product; it never fails with
  IncompatibleUnitsError, on any table. The units are reconciled afterwards, by
  \<^verbatim>\<open>decompose()\<close>.
\<close>

theorem ratio_without_conversion:
  assumes "valid_table archive"
    and "getColumn archive ''st_teff'' = Inr (Quantity ut ts)"
    and "getColumn archive ''st_rad'' = Inr (Quantity ur rs)"
    and "getColumn archive ''pl_orbsmax'' = Inr (Quantity ua axs)"
  shows "ratio (Quantity ur rs) (Quantity ua axs) =
      Inr (Quantity (unit_div ur ua)
        (map (\<lambda>i. fdiv (rs ! i) (fmul (Fin 2) (axs ! i))) [0..<rowCount archive]))
    \<and> (dimensionless (unit_div ur ua) \<longleftrightarrow> bases ur = bases ua)
    \<and> (\<exists>teq. computeEquilibriumTemperature archive =
          Inr (Quantity (unit_decompose (unit_mul ut (unit_sqrt (unit_div ur ua)))) teq))
    \<and> (\<forall>t. computeEquilibriumTemperature t \<noteq> Inl IncompatibleUnitsError)"
proof -
  have len: "length rs = rowCount archive" "length axs = rowCount archive"
    using valid_col_len[OF assms(1,3)] valid_col_len[OF assms(1,4)] by simp_all
  have "dimensionless (unit_div ur ua) \<longleftrightarrow> bases ur = bases ua"
    by (simp add: dimensionless_def unit_div_def dim_sub_none_iff)
  then show ?thesis
    using ratio_numeric[OF len] compute_valid[OF assms] compute_no_unit_error by simp
qed

theorem ratio_without_conversion_witness:
  "valid_table sample_archive
   \<and> getColumn sample_archive ''st_teff'' = Inr (Quantity K [Fin 5778, Fin 4000, NaN])
   \<and> getColumn sample_archive ''st_rad'' = Inr (Quantity R_sun [Fin 1, Fin 2, Fin 1])
   \<and> getColumn sample_archive ''pl_orbsmax'' = Inr (Quantity AU [Fin 1, Fin 3, Fin 1])
   \<and> ratio (Quantity R_sun [Fin 1, Fin 2, Fin 1]) (Quantity AU [Fin 1, Fin 3, Fin 1]) =
      Inr (Quantity (unit_div R_sun AU)
        (map (\<lambda>i. fdiv ([Fin 1, Fin 2, Fin 1] ! i) (fmul (Fin 2) ([Fin 1, Fin 3, Fin 1] ! i)))
           [0..<rowCount sample_archive]))
   \<and> (\<exists>teq. computeEquilibriumTemperature sample_archive =
          Inr (Quantity (unit_decompose (unit_mul K (unit_sqrt (unit_div R_sun AU)))) teq))"
  using valid_sample_archive sample_archive_lookups
    ratio_without_conversion [OF valid_sample_archive sample_archive_lookups(2-4)]
  by blast

text \<open>
  Counterexample to claim C2 as stated. With \<^verbatim>\<open>st_rad\<close> in kilograms and
  \<^verbatim>\<open>pl_orbsmax\<close> in metres the two columns have no common length unit; the ratio is
  formed all the same, in kg / m, and the computation returns a column instead of failing.
\<close>

theorem ratio_mass_over_length_counterexample:
  "bases kg \<noteq> bases meter
   \<and> ratio (Quantity kg [Fin 2]) (Quantity meter [Fin 1])
       = Inr (Quantity (unit_div kg meter) [Fin 1])
   \<and> computeEquilibriumTemperature
       [(''st_teff'', Quantity K [Fin 5778]), (''st_rad'', Quantity kg [Fin 2]),
        (''pl_orbsmax'', Quantity meter [Fin 1])]
       = Inr (Quantity (unit_decompose (unit_mul K (unit_sqrt (unit_div kg meter)))) [Fin 5778])"
  by (simp add: computeEquilibriumTemperature_def getColumn_def ebind_def ratio_def
      broadcast_def kg_def meter_def K_def dim_mass_def dim_length_def dim_none_def
      unit_div_def unit_mul_def unit_sqrt_def)

text \<open>
  Claim C3, as the code has it. When \<^verbatim>\<open>st_rad\<close> and \<^verbatim>\<open>pl_orbsmax\<close> have the same
  dimension, the produced column carries the SI base unit of the dimension of
  \<^verbatim>\<open>st_teff\<close>: kelvin whenever \<^verbatim>\<open>st_teff\<close> is a temperature. That is the unit of the
  \<^verbatim>\<open>st_teff\<close> column itself exactly when that unit has scale one.
\<close>

theorem teq_unit:
  assumes "valid_table archive"
    and "getColumn archive ''st_teff'' = Inr (Quantity ut ts)"
    and "getColumn archive ''st_rad'' = Inr (Quantity ur rs)"
    and "getColumn archive ''pl_orbsmax'' = Inr (Quantity ua axs)"
    and "bases ur = bases ua"
  shows "(\<exists>teq. computeEquilibriumTemperature archive
            = Inr (Quantity \<lparr>scale = 1, bases = bases ut\<rparr> teq))
        \<and> (bases ut = dim_temperature \<longrightarrow> \<lparr>scale = 1, bases = bases ut\<rparr> = K)
        \<and> ((\<lparr>scale = 1, bases = bases ut\<rparr> = ut) = (scale ut = 1))"
  using compute_valid[OF assms(1-4)] decomposed_unit_same_dim[OF assms(5)] unit_scale_one
  by (simp add: K_def)

theorem teq_unit_witness:
  "valid_table sample_archive
   \<and> getColumn sample_archive ''st_teff'' = Inr (Quantity K [Fin 5778, Fin 4000, NaN])
   \<and> getColumn sample_archive ''st_rad'' = Inr (Quantity R_sun [Fin 1, Fin 2, Fin 1])
   \<and> getColumn sample_archive ''pl_orbsmax'' = Inr (Quantity AU [Fin 1, Fin 3, Fin 1])
   \<and> bases R_sun = bases AU
   \<and> bases K = dim_temperature
   \<and> (\<exists>teq. computeEquilibriumTemperature sample_archive
            = Inr (Quantity \<lparr>scale = 1, bases = bases K\<rparr> teq))
   \<and> \<lparr>scale = 1, bases = bases K\<rparr> = K"
proof -
  have same: "bases R_sun = bases AU" by (simp add: R_sun_def AU_def)
  have temp: "bases K = dim_temperature" by (simp add: K_def)
  show ?thesis
    using valid_sample_archive sample_archive_lookups same temp
      teq_unit [OF valid_sample_archive sample_archive_lookups(2-4) same]
    by blast
qed

text \<open>
  Counterexample to claim C3 as stated. With \<^verbatim>\<open>st_teff\<close> in millikelvin the result is
  in kelvin, which is not the unit of the \<^verbatim>\<open>st_teff\<close> column; with \<^verbatim>\<open>st_rad\<close> in
  kilograms and \<^verbatim>\<open>pl_orbsmax\<close> in metres the result is in K kg^(1/2) m^(-1/2), which is
  not a temperature.
\<close>

theorem teq_unit_counterexample:
  "computeEquilibriumTemperature
       [(''st_teff'', Quantity mK [Fin 5778000]), (''st_rad'', Quantity meter [Fin 2]),
        (''pl_orbsmax'', Quantity meter [Fin 1])]
       = Inr (Quantity K [Fin 5778])
   \<and> K \<noteq> mK
   \<and> computeEquilibriumTemperature
       [(''st_teff'', Quantity K [Fin 300]), (''st_rad'', Quantity kg [Fin 2]),
        (''pl_orbsmax'', Quantity meter [Fin 1])]
       = Inr (Quantity
               \<lparr>scale = 1, bases = dim_none\<lparr>metre := - 1 / 2, kilogram := 1 / 2, kelvin := 1\<rparr>\<rparr>
               [Fin 300])
   \<and> dim_none\<lparr>metre := - 1 / 2, kilogram := 1 / 2, kelvin := 1\<rparr> \<noteq> dim_temperature"
  by (simp add: computeEquilibriumTemperature_def getColumn_def ebind_def ratio_def
      broadcast_def kg_def meter_def K_def mK_def dim_mass_def dim_length_def dim_none_def
      dim_temperature_def dim_add_def dim_sub_def dim_half_def
      unit_div_def unit_mul_def unit_sqrt_def unit_decompose_def)

text \<open>
  Claim C4, as the code has it. In every row in which \<^verbatim>\<open>st_teff\<close> or \<^verbatim>\<open>st_rad\<close> is
  not finite, or \<^verbatim>\<open>pl_orbsmax\<close> is NaN, the computation returns a value that is not
  finite, and it returns a column: no error is raised.
\<close>

theorem teq_nonfinite_rows:
  assumes "valid_table archive"
    and "getColumn archive ''st_teff'' = Inr (Quantity ut ts)"
    and "getColumn archive ''st_rad'' = Inr (Quantity ur rs)"
    and "getColumn archive ''pl_orbsmax'' = Inr (Quantity ua axs)"
    and "i < rowCount archive"
    and "\<not> isfinite (ts ! i) \<or> \<not> isfinite (rs ! i) \<or> axs ! i = NaN"
  shows "\<exists>u teq. computeEquilibriumTemperature archive = Inr (Quantity u teq) \<and>
      length teq = rowCount archive \<and> \<not> isfinite (teq ! i)"
  using compute_valid[OF assms(1-4)] assms(5) nonfin_row[OF assms(6)]
  by simp

theorem teq_nonfinite_rows_witness:
  "valid_table sample_archive
   \<and> getColumn sample_archive ''st_teff'' = Inr (Quantity K [Fin 5778, Fin 4000, NaN])
   \<and> getColumn sample_archive ''st_rad'' = Inr (Quantity R_sun [Fin 1, Fin 2, Fin 1])
   \<and> getColumn sample_archive ''pl_orbsmax'' = Inr (Quantity AU [Fin 1, Fin 3, Fin 1])
   \<and> 2 < rowCount sample_archive
   \<and> \<not> isfinite ([Fin 5778, Fin 4000, NaN] ! 2)
   \<and> (\<exists>u teq. computeEquilibriumTemperature sample_archive = Inr (Quantity u teq) \<and>
        length teq = rowCount sample_archive \<and> \<not> isfinite (teq ! 2))"
proof -
  have row: "2 < rowCount sample_archive" by (simp add: sample_archive_def)
  have nan: "\<not> isfinite ([Fin 5778, Fin 4000, NaN] ! 2)" by simp
  then have hyp: "\<not> isfinite ([Fin 5778, Fin 4000, NaN] ! 2)
      \<or> \<not> isfinite ([Fin 1, Fin 2, Fin 1] ! 2) \<or> [Fin 1, Fin 3, Fin 1] ! 2 = NaN"
    by (rule disjI1)
  show ?thesis
    using valid_sample_archive sample_archive_lookups row nan
      teq_nonfinite_rows [OF valid_sample_archive sample_archive_lookups(2-4) row hyp]
    by blast
qed

text \<open>
  Counterexample to claim C4 as stated. A row with an infinite \<^verbatim>\<open>pl_orbsmax\<close> and
  finite \<^verbatim>\<open>st_teff\<close> and \<^verbatim>\<open>st_rad\<close> gives the finite value zero:
  \<open>1 / (2 * inf) = 0\<close>, \<open>sqrt 0 = 0\<close>, \<open>5778 * 0 = 0\<close>.
\<close>

theorem teq_infinite_axis_counterexample:
  "\<not> isfinite PInf
   \<and> computeEquilibriumTemperature
       [(''st_teff'', Quantity K [Fin 5778]), (''st_rad'', Quantity R_sun [Fin 1]),
        (''pl_orbsmax'', Quantity AU [PInf])]
       = Inr (Quantity K [Fin 0])
   \<and> isfinite (Fin 0)"
  by (simp add: computeEquilibriumTemperature_def getColumn_def ebind_def ratio_def
      broadcast_def sgn_inf_def archive_units_decomposed)

section \<open>The solar-Earth analogue\<close>

lemma sun_earth_bounds:
  fixes s :: real
  assumes "48 / 1000 \<le> s" "s \<le> 485 / 10000"
  shows "\<bar>5778 * s - 557 / 2\<bar> \<le> (557 / 2) / 100"
  using assms by arith

lemma sun_earth_value:
  "\<bar>5778 * sqrt (1 / 2) * sqrt (695700000 / 149597870700) - 557 / 2\<bar> \<le> (557 / 2) / (100::real)"
proof -
  let ?c = "(1 / 2) * (695700000 / 149597870700) :: real"
  have lo: "48 / 1000 \<le> sqrt ?c"
    by (rule real_le_rsqrt) (simp add: power2_eq_square)
  have hi: "sqrt ?c \<le> 485 / 10000"
    by (rule real_le_lsqrt) (simp_all add: power2_eq_square)
  have "5778 * sqrt (1 / 2) * sqrt (695700000 / 149597870700) = 5778 * sqrt ?c"
    by (simp only: real_sqrt_mult mult.assoc)
  then show ?thesis using sun_earth_bounds[OF lo hi] by (simp only:)
qed

lemma sun_earth_teq:
  "computeEquilibriumTemperature sun_earth
     = Inr (Quantity K [Fin (5778 * sqrt (1 / 2) * (1 * sqrt (695700000 / 149597870700)))])"
proof -
  have "computeEquilibriumTemperature sun_earth
     = Inr (Quantity (unit_decompose (unit_mul K (unit_sqrt (unit_div R_sun AU))))
        (map (\<lambda>i. fmul (fmul ([Fin 5778] ! i)
                 (fsqrt (fdiv ([Fin 1] ! i) (fmul (Fin 2) ([Fin 1] ! i)))))
               (Fin (scale K * sqrt (scale R_sun / scale AU)))) [0..<1]))"
    by (rule compute_numeric[OF sun_earth_lookups]) simp_all
  then show ?thesis
    by (simp add: archive_units_decomposed) (simp add: K_def R_sun_def AU_def)
qed

text \<open>
  Claim C5. On the one-row table with \<^verbatim>\<open>st_teff\<close> 5778 K, \<^verbatim>\<open>st_rad\<close> one solar radius
  and \<^verbatim>\<open>pl_orbsmax\<close> one astronomical unit, the computation returns one value in
  kelvin, within one percent of 278.5.
\<close>

theorem teq_sun_earth:
  "\<exists>v. computeEquilibriumTemperature sun_earth = Inr (Quantity K [Fin v])
     \<and> \<bar>v - 557 / 2\<bar> \<le> (557 / 2) / 100"
  using sun_earth_teq sun_earth_value by simp

end
